theory Spec2Isabelle
  imports Complex_Main "HOL-Library.Sublist"
begin

section \<open>Values of the runtime\<close>

text \<open>
  The harness is JavaScript. Its strings are modelled as \<^typ>\<open>string\<close>; the few
  characters outside ASCII that the transcript uses (check mark, cross, warning sign) are
  written as their UTF-8 bytes. The values that travel as method arguments and results are
  the primitives and opaque objects; numbers are the integers, which are the only numbers
  the synthesizer makes. An object carries what the harness reads of it: the name of its
  constructor and its JSON text.
\<close>

datatype jsval =
    JNull
  | JUndefined
  | JBool bool
  | JNum int
  | JStr string
  | JObj string string

text \<open>\<^verbatim>\<open>Array.prototype.join\<close> on strings.\<close>

fun join :: "string \<Rightarrow> string list \<Rightarrow> string" where
  "join sep [] = []"
| "join sep [x] = x"
| "join sep (x # y # ys) = x @ sep @ join sep (y # ys)"

definition newline :: string where
  "newline = [CHR 0x0A]"

section \<open>errors.js\<close>

text \<open>
  A thrown value. \<open>Error name message\<close> is any thrown object that is not an instance of
  \<^verbatim>\<open>FuzzerError\<close> (an empty message also stands for a missing one: both are falsy);
  \<open>FuzzerError name message code\<close> is an instance of the class or of one of its
  subclasses. The \<^verbatim>\<open>details\<close> payload and the timestamp are not modelled, nor is a
  thrown \<^verbatim>\<open>null\<close> or \<^verbatim>\<open>undefined\<close>.
\<close>

datatype thrown =
    Error string string
  | FuzzerError string string string

fun error_message :: "thrown \<Rightarrow> string" where
  "error_message (Error n m) = m"
| "error_message (FuzzerError n m c) = m"

definition INVALID_INPUT :: string where "INVALID_INPUT = ''INVALID_INPUT''"
definition COMPILATION_ERROR :: string where "COMPILATION_ERROR = ''COMPILATION_ERROR''"
definition IMPORT_ERROR :: string where "IMPORT_ERROR = ''IMPORT_ERROR''"
definition EXECUTION_ERROR :: string where "EXECUTION_ERROR = ''EXECUTION_ERROR''"
definition VALIDATION_ERROR :: string where "VALIDATION_ERROR = ''VALIDATION_ERROR''"
definition RESOURCE_ERROR :: string where "RESOURCE_ERROR = ''RESOURCE_ERROR''"
definition TIMEOUT_ERROR :: string where "TIMEOUT_ERROR = ''TIMEOUT_ERROR''"
definition UNKNOWN_ERROR :: string where "UNKNOWN_ERROR = ''UNKNOWN_ERROR''"

text \<open>The constructors of the subclasses: each fixes the name and the code.\<close>

definition CompilationError :: "string \<Rightarrow> thrown" where
  "CompilationError message = FuzzerError ''CompilationError'' message ''COMPILATION_ERROR''"

definition ImportError :: "string \<Rightarrow> thrown" where
  "ImportError message = FuzzerError ''ImportError'' message ''IMPORT_ERROR''"

definition ExecutionError :: "string \<Rightarrow> thrown" where
  "ExecutionError message = FuzzerError ''ExecutionError'' message ''EXECUTION_ERROR''"

definition ValidationError :: "string \<Rightarrow> thrown" where
  "ValidationError message = FuzzerError ''ValidationError'' message ''VALIDATION_ERROR''"

definition ResourceError :: "string \<Rightarrow> thrown" where
  "ResourceError message = FuzzerError ''ResourceError'' message ''RESOURCE_ERROR''"

definition TimeoutError :: "string \<Rightarrow> thrown" where
  "TimeoutError message = FuzzerError ''TimeoutError'' message ''TIMEOUT_ERROR''"

text \<open>
  \<^verbatim>\<open>getStatusCodeForError\<close>: the table is an object literal keyed by the error codes and
  read with \<^verbatim>\<open>statusCodeMap[errorCode] || 500\<close>. No entry is zero, so the default is taken
  exactly when the code is not a key. The codes that reach it are those the error classes set,
  all of them keys; a name that the object literal only inherits is not among them.
\<close>

definition statusCodeMap :: "(string \<times> nat) list" where
  "statusCodeMap =
     [(INVALID_INPUT, 400),
      (VALIDATION_ERROR, 400),
      (COMPILATION_ERROR, 422),
      (IMPORT_ERROR, 422),
      (EXECUTION_ERROR, 422),
      (RESOURCE_ERROR, 503),
      (TIMEOUT_ERROR, 408),
      (UNKNOWN_ERROR, 500)]"

definition getStatusCodeForError :: "string \<Rightarrow> nat" where
  "getStatusCodeForError errorCode =
     (case map_of statusCodeMap errorCode of Some status \<Rightarrow> status | None \<Rightarrow> 500)"

text \<open>
  The response envelope. The body is the object handed to \<^verbatim>\<open>JSON.stringify\<close>:
  \<open>SuccessBody message output (totalLogs, errors, warnings)\<close> for \<^verbatim>\<open>success: true\<close>,
  \<open>FailureBody message code type output\<close> for \<^verbatim>\<open>success: false\<close>.
\<close>

datatype response_body =
    SuccessBody string string "nat \<times> nat \<times> nat"
  | FailureBody string string string string

record response =
  statusCode :: nat
  body :: response_body


fun createErrorResponse :: "thrown \<Rightarrow> string list \<Rightarrow> response" where
  "createErrorResponse (FuzzerError name message code) logs =
     \<lparr>statusCode = getStatusCodeForError code,
      body = FailureBody message code name (join newline logs)\<rparr>"
| "createErrorResponse (Error name message) logs =
     \<lparr>statusCode = 500,
      body = FailureBody message UNKNOWN_ERROR name (join newline logs)\<rparr>"

text \<open>
  \<^verbatim>\<open>safeExecute\<close> awaits the operation and rethrows: a \<^verbatim>\<open>FuzzerError\<close> as it is,
  anything else as a \<^verbatim>\<open>FuzzerError\<close> with the code \<^verbatim>\<open>UNKNOWN_ERROR\<close> and the message
  \<^verbatim>\<open>error.message || 'An unexpected error occurred'\<close>.
\<close>

fun rethrow :: "thrown \<Rightarrow> thrown" where
  "rethrow (FuzzerError name message code) = FuzzerError name message code"
| "rethrow (Error name message) =
     FuzzerError ''FuzzerError''
       (if message = [] then ''An unexpected error occurred'' else message) UNKNOWN_ERROR"

definition safeExecute :: "('s \<Rightarrow> (thrown + 'a) \<times> 's) \<Rightarrow> 's \<Rightarrow> (thrown + 'a) \<times> 's" where
  "safeExecute operation s =
     (case operation s of
        (Inl error, s') \<Rightarrow> (Inl (rethrow error), s')
      | (Inr result, s') \<Rightarrow> (Inr result, s'))"

section \<open>Text produced by the runtime\<close>

text \<open>The three signs of the transcript, as UTF-8: U+2705, U+274C and U+26A0 U+FE0F.\<close>

definition check_mark :: string where
  "check_mark = [CHR 0xE2, CHR 0x9C, CHR 0x85]"

definition cross_mark :: string where
  "cross_mark = [CHR 0xE2, CHR 0x9D, CHR 0x8C]"

definition warning_sign :: string where
  "warning_sign = [CHR 0xE2, CHR 0x9A, CHR 0xA0, CHR 0xEF, CHR 0xB8, CHR 0x8F]"

text \<open>Digits: \<open>digit36\<close> is the digit alphabet of \<^verbatim>\<open>Number.prototype.toString(36)\<close>.\<close>

definition alphabet36 :: string where
  "alphabet36 = ''0123456789abcdefghijklmnopqrstuvwxyz''"

definition digit36 :: "nat \<Rightarrow> char" where
  "digit36 d = alphabet36 ! (d mod 36)"

fun String_nat :: "nat \<Rightarrow> string" where
  "String_nat n =
     (if n < 10 then [digit36 n] else String_nat (n div 10) @ [digit36 (n mod 10)])"

declare String_nat.simps [simp del]

definition String_int :: "int \<Rightarrow> string" where
  "String_int i = (if i < 0 then CHR ''-'' # String_nat (nat (- i)) else String_nat (nat i))"

text \<open>
  \<^verbatim>\<open>String.prototype.substring(start, end)\<close>: the two indices are swapped when they come
  in the wrong order and clamped to the length.
\<close>

definition substring :: "string \<Rightarrow> nat \<Rightarrow> nat \<Rightarrow> string" where
  "substring s start end' = take (max start end' - min start end') (drop (min start end') s)"

text \<open>
  \<^verbatim>\<open>Math.random().toString(36)\<close>. \<^verbatim>\<open>Math.random()\<close> gives a number \<open>r\<close> with
  \<open>0 \<le> r < 1\<close>, modelled as a rational. Its text in radix 36 is \<^verbatim>\<open>0\<close> for zero and
  otherwise \<^verbatim>\<open>0.\<close> followed by the places of the expansion, which stops where the
  expansion terminates. The engine prints as many places as tell the number from its
  neighbours; the harness reads the first five only, so the model cuts a longer expansion
  after \<open>radix_places\<close> places.
\<close>

fun fraction36 :: "nat \<Rightarrow> rat \<Rightarrow> string" where
  "fraction36 0 r = []"
| "fraction36 (Suc places) r =
     (if r = 0 then []
      else digit36 (nat \<lfloor>r * 36\<rfloor>) # fraction36 places (r * 36 - of_int \<lfloor>r * 36\<rfloor>))"

definition radix_places :: nat where
  "radix_places = 20"

definition toString36 :: "rat \<Rightarrow> string" where
  "toString36 r = (if r = 0 then ''0'' else ''0.'' @ fraction36 radix_places r)"

text \<open>
  \<^verbatim>\<open>JSON.stringify\<close> on a value; \<open>None\<close> is the result \<^verbatim>\<open>undefined\<close>. A string is
  quoted, with the quote, the backslash and the control characters escaped.
\<close>

definition hex4 :: "nat \<Rightarrow> string" where
  "hex4 n = [CHR ''0'', CHR ''0'', digit36 (n div 16 mod 16), digit36 (n mod 16)]"

definition escape_char :: "char \<Rightarrow> string" where
  "escape_char c =
     (if c = CHR 0x22 then [CHR 0x5C, CHR 0x22]
      else if c = CHR 0x5C then [CHR 0x5C, CHR 0x5C]
      else if c = CHR 0x08 then [CHR 0x5C, CHR ''b'']
      else if c = CHR 0x0C then [CHR 0x5C, CHR ''f'']
      else if c = CHR 0x0A then [CHR 0x5C, CHR ''n'']
      else if c = CHR 0x0D then [CHR 0x5C, CHR ''r'']
      else if c = CHR 0x09 then [CHR 0x5C, CHR ''t'']
      else if (of_char c :: nat) < 32 then [CHR 0x5C, CHR ''u''] @ hex4 (of_char c)
      else [c])"

definition quote :: "string \<Rightarrow> string" where
  "quote s = [CHR 0x22] @ concat (map escape_char s) @ [CHR 0x22]"

fun JSON_stringify :: "jsval \<Rightarrow> string option" where
  "JSON_stringify JNull = Some ''null''"
| "JSON_stringify JUndefined = None"
| "JSON_stringify (JBool b) = Some (if b then ''true'' else ''false'')"
| "JSON_stringify (JNum n) = Some (String_int n)"
| "JSON_stringify (JStr s) = Some (quote s)"
| "JSON_stringify (JObj constructor_name json) = Some json"

text \<open>A value inside a template literal: \<^verbatim>\<open>undefined\<close> prints as the word.\<close>

definition template :: "string option \<Rightarrow> string" where
  "template v = (case v of None \<Rightarrow> ''undefined'' | Some s \<Rightarrow> s)"

text \<open>\<^verbatim>\<open>String.prototype.split\<close> at a character, and reading a part by its index.\<close>

fun split :: "char \<Rightarrow> string \<Rightarrow> string list" where
  "split c [] = [[]]"
| "split c (x # xs) =
     (if x = c then [] # split c xs
      else (case split c xs of [] \<Rightarrow> [[x]] | p # ps \<Rightarrow> (x # p) # ps))"

definition part :: "string list \<Rightarrow> nat \<Rightarrow> string option" where
  "part ps i = (if i < length ps then Some (ps ! i) else None)"

section \<open>logger.js\<close>

text \<open>
  An entry of the logger is its level (\<^verbatim>\<open>'info'\<close>, \<^verbatim>\<open>'warn'\<close> or \<^verbatim>\<open>'error'\<close>) and its
  message; the timestamp and the data object are not modelled.
\<close>

record log_entry =
  log_level :: string
  log_message :: string

section \<open>The state of the handler's module\<close>

text \<open>
  The module keeps the transcript \<^verbatim>\<open>outputLogs\<close>, the logger's entries and the registry of
  generators. \<open>heap\<close> is everything the user's code can read and change; a generator, a
  method and a constructor of the user's module are functions of it that return a value or
  throw. \<open>random\<close> is the sequence of numbers \<^verbatim>\<open>Math.random()\<close> gives to the harness and
  \<open>drawn\<close> counts those taken.

  The registry is an object literal read with \<^verbatim>\<open>mockGeneratorRegistry[typeName]\<close>; the map
  is that lookup, \<open>None\<close> where it is falsy. An entry is what calling it does; calling a
  property that is not a function throws, which is an entry that throws.
\<close>

type_synonym 'h generator = "'h \<Rightarrow> (thrown + jsval) \<times> 'h"

type_synonym 'h js_method = "jsval list \<Rightarrow> 'h \<Rightarrow> (thrown + jsval) \<times> 'h"

type_synonym 'h js_instance = "string \<rightharpoonup> 'h js_method"

record 'h state =
  outputLogs :: "string list"
  logs :: "log_entry list"
  mockGeneratorRegistry :: "string \<rightharpoonup> 'h generator"
  heap :: 'h
  random :: "nat \<Rightarrow> rat"
  drawn :: nat

definition push :: "string \<Rightarrow> 'h state \<Rightarrow> 'h state" where
  "push line st = st\<lparr>outputLogs := outputLogs st @ [line]\<rparr>"

text \<open>\<^verbatim>\<open>outputLogs[outputLogs.length - 1] += text\<close>, on a transcript that is not empty.\<close>

definition append_last :: "string \<Rightarrow> 'h state \<Rightarrow> 'h state" where
  "append_last text st =
     st\<lparr>outputLogs := butlast (outputLogs st) @ [last (outputLogs st) @ text]\<rparr>"

definition logger_log :: "string \<Rightarrow> string \<Rightarrow> 'h state \<Rightarrow> 'h state" where
  "logger_log level message st =
     st\<lparr>logs := logs st @ [\<lparr>log_level = level, log_message = message\<rparr>]\<rparr>"

definition logger_info :: "string \<Rightarrow> 'h state \<Rightarrow> 'h state" where
  "logger_info message st = logger_log ''info'' message st"

definition logger_warn :: "string \<Rightarrow> 'h state \<Rightarrow> 'h state" where
  "logger_warn message st = logger_log ''warn'' message st"

definition logger_error :: "string \<Rightarrow> 'h state \<Rightarrow> 'h state" where
  "logger_error message st = logger_log ''error'' message st"

definition methodCall :: "string option \<Rightarrow> string option \<Rightarrow> 'h state \<Rightarrow> 'h state" where
  "methodCall className methodName st =
     logger_info (''Method called: '' @ template className @ ''.'' @ template methodName) st"

definition methodResult :: "string option \<Rightarrow> string option \<Rightarrow> 'h state \<Rightarrow> 'h state" where
  "methodResult className methodName st =
     logger_info (''Method result: '' @ template className @ ''.'' @ template methodName) st"

definition methodError :: "string option \<Rightarrow> string option \<Rightarrow> 'h state \<Rightarrow> 'h state" where
  "methodError className methodName st =
     logger_error (''Method error: '' @ template className @ ''.'' @ template methodName) st"

definition logger_clear :: "'h state \<Rightarrow> 'h state" where
  "logger_clear st = st\<lparr>logs := []\<rparr>"

text \<open>\<^verbatim>\<open>getSummary\<close>: the total, the entries of level error, the entries of level warn.\<close>

definition getSummary :: "'h state \<Rightarrow> nat \<times> nat \<times> nat" where
  "getSummary st =
     (length (logs st),
      length (filter (\<lambda>e. log_level e = ''error'') (logs st)),
      length (filter (\<lambda>e. log_level e = ''warn'') (logs st)))"

section \<open>The synthesizer\<close>

definition registerMockGenerator :: "string \<Rightarrow> 'h generator \<Rightarrow> 'h state \<Rightarrow> 'h state" where
  "registerMockGenerator typeName generator st =
     st\<lparr>mockGeneratorRegistry := (mockGeneratorRegistry st)(typeName \<mapsto> generator)\<rparr>"

definition Math_random :: "'h state \<Rightarrow> rat \<times> 'h state" where
  "Math_random st = (random st (drawn st), st\<lparr>drawn := drawn st + 1\<rparr>)"

text \<open>Running a piece of the user's code on the heap of the state.\<close>

definition on_heap :: "('h \<Rightarrow> 'a \<times> 'h) \<Rightarrow> 'h state \<Rightarrow> 'a \<times> 'h state" where
  "on_heap f st = (case f (heap st) of (result, h) \<Rightarrow> (result, st\<lparr>heap := h\<rparr>))"

text \<open>
  \<^verbatim>\<open>generateMockValue\<close>. The kinds are the numbers of the source: 152 for the string
  keyword, 148 for the number keyword, 136 for the boolean keyword. The value
  \<^verbatim>\<open>null\<close> is what the default branch returns.
\<close>

definition generateMockValue ::
  "nat \<Rightarrow> string \<Rightarrow> 'h state \<Rightarrow> (thrown + jsval) \<times> 'h state" where
  "generateMockValue typeKind typeName st =
     (case mockGeneratorRegistry st typeName of
        Some generator \<Rightarrow> on_heap generator st
      | None \<Rightarrow>
          if typeKind = 152 then
            (case Math_random st of (r, st') \<Rightarrow> (Inr (JStr (substring (toString36 r) 2 7)), st'))
          else if typeKind = 148 then
            (case Math_random st of (r, st') \<Rightarrow> (Inr (JNum \<lfloor>r * 1000\<rfloor>), st'))
          else if typeKind = 136 then
            (case Math_random st of (r, st') \<Rightarrow> (Inr (JBool (r > 1 / 2)), st'))
          else (Inr JNull, st))"

section \<open>Executing one method\<close>

text \<open>
  An argument in the call line: an object shows the name of its constructor, anything else
  its JSON text, and \<^verbatim>\<open>join\<close> prints \<^verbatim>\<open>undefined\<close> as the empty string.
\<close>

fun arg_text :: "jsval \<Rightarrow> string" where
  "arg_text (JObj constructor_name json) = ''{...'' @ constructor_name @ ''}''"
| "arg_text v = (case JSON_stringify v of None \<Rightarrow> [] | Some s \<Rightarrow> s)"

text \<open>
  \<^verbatim>\<open>executeFunction\<close>. The result \<open>Inr ()\<close> is a return, \<open>Inl e\<close> a throw of \<open>e\<close>. The
  start time and the duration go to the logger's data only.
\<close>

definition executeFunction ::
  "string \<Rightarrow> 'h js_method \<Rightarrow> jsval list \<Rightarrow> 'h state \<Rightarrow> (thrown + unit) \<times> 'h state" where
  "executeFunction name func args st =
     (if JNull \<in> set args then
        (Inr (),
         push (''  -> Skipping '' @ name @ ''(...) due to unsupported parameter types.'')
           (logger_warn (''Skipping '' @ name @ ''(...) due to unsupported parameter types'') st))
      else
        let argsString = join '', '' (map arg_text args);
            st1 = push (''  -> Calling '' @ name @ ''('' @ argsString @ '')... '') st;
            className = part (split CHR ''.'' name) 0;
            methodName = part (split CHR ''.'' name) 1;
            st2 = methodCall className methodName st1
        in (case safeExecute (on_heap (func args)) st2 of
              (Inr result, st3) \<Rightarrow>
                let st4 = methodResult className methodName st3;
                    st5 = append_last (check_mark @ '' Success'') st4
                in (Inr (),
                    if result \<noteq> JUndefined
                    then push (''     Output: '' @ template (JSON_stringify result)) st5
                    else st5)
            | (Inl error, st3) \<Rightarrow>
                let st4 = methodError className methodName st3;
                    st5 = append_last (cross_mark @ '' Error'') st4;
                    st6 = push (''     Message: '' @ error_message error) st5
                in (Inl (ExecutionError (''Method execution failed: '' @ error_message error)),
                    st6)))"

section \<open>What the compiler and the loaded module hand to the harness\<close>

text \<open>
  The harness reads the syntax tree through the compiler's interface. A parameter is its
  type annotation, the kind and the text, or \<open>None\<close> without one; a method is its name,
  the texts of its decorators and its parameters; a class is its name, the texts of the
  types of each heritage clause and its members. An export is the first declaration of
  its resolved symbol, if it has one.
\<close>

record method_decl =
  method_name :: string
  decorators :: "string list"
  parameters :: "(nat \<times> string) option list"

datatype member = MethodDeclaration method_decl | OtherMember

record class_decl =
  class_name :: string
  heritageClauses :: "string list list"
  members :: "member list"

datatype export_decl = ClassDeclaration class_decl | OtherDeclaration

datatype ast = NoSourceFile | NoModuleSymbol | Exports "export_decl option list"

text \<open>
  An export of the loaded module is what the harness does with it: \<open>construct\<close> is
  \<^verbatim>\<open>new X()\<close>, which gives an instance (its methods by name) or throws; \<open>from_board\<close> is the
  body of the generator registered for \<^verbatim>\<open>Sudoku\<close>, \<^verbatim>\<open>X.from(emptyBoard)\<close>;
  \<open>construct_player\<close> is the body of the generator registered for \<^verbatim>\<open>Player\<close>, which makes
  a key and calls \<^verbatim>\<open>new X({ publicKey: mockKey })\<close>. A module is the lookup
  \<^verbatim>\<open>targetModule[name]\<close>, \<open>None\<close> where it is falsy.
\<close>

record 'h export_value =
  construct :: "'h \<Rightarrow> (thrown + 'h js_instance) \<times> 'h"
  from_board :: "'h generator"
  construct_player :: "'h generator"

type_synonym 'h js_module = "string \<rightharpoonup> 'h export_value"

text \<open>
  A validated request: the code of code mode, or the repository URL, the branch and the
  file path of repo mode (the empty string for a field that is absent).
\<close>

datatype request = CodeMode string | RepoMode string string string

text \<open>What \<^verbatim>\<open>JSON.parse\<close> and \<^verbatim>\<open>validateAndSanitizeInput\<close> make of a request body.\<close>

datatype parsed = InvalidJSON | Rejected thrown | Accepted request

text \<open>
  The collaborators of the handler, which act on the heap: the validators of
  validation.js (\<open>Some e\<close> throws \<open>e\<close>), the file system, the compiler (\<open>emit\<close> gives the
  diagnostics when the emit was skipped), the dynamic import, the clock, whether o1js gave a
  \<^verbatim>\<open>PrivateKey\<close>, and the acquisition of the files of a repository (\<open>fetchFiles\<close>: the
  first half of \<^verbatim>\<open>processGitHubRepo\<close>, which writes to the transcript and gives the entries
  of \<^verbatim>\<open>fileContents\<close> or throws).
\<close>

record 'h env =
  parse :: "string \<Rightarrow> parsed"
  validateGitHubUrl :: "string \<Rightarrow> thrown option"
  validateFilePath :: "string \<Rightarrow> thrown option"
  validateTypeScriptCode :: "string \<Rightarrow> thrown option"
  writeFileSync :: "string \<Rightarrow> string \<Rightarrow> 'h \<Rightarrow> (thrown + unit) \<times> 'h"
  unlinkSync :: "string \<Rightarrow> 'h \<Rightarrow> (thrown + unit) \<times> 'h"
  emit :: "string \<Rightarrow> 'h \<Rightarrow> string list option \<times> 'h"
  getSourceFile :: "string \<Rightarrow> 'h \<Rightarrow> ast"
  import_module :: "string \<Rightarrow> 'h \<Rightarrow> (thrown + 'h js_module) \<times> 'h"
  Date_now :: "'h \<Rightarrow> nat"
  PrivateKey :: bool
  fetchFiles ::
    "string \<Rightarrow> string \<Rightarrow> string \<Rightarrow> 'h state \<Rightarrow> (thrown + (string \<times> string) list) \<times> 'h state"

section \<open>Paths\<close>

text \<open>
  \<^verbatim>\<open>path.basename\<close>: the last segment of a path, trailing slashes apart; with an extension,
  the extension is cut from a segment that ends with it and is longer than it.
  \<^verbatim>\<open>path.join\<close> is used on a directory and a name without a slash only.
\<close>

definition basename :: "string \<Rightarrow> string" where
  "basename p =
     rev (takeWhile (\<lambda>c. c \<noteq> CHR ''/'') (dropWhile (\<lambda>c. c = CHR ''/'') (rev p)))"

definition basename_ext :: "string \<Rightarrow> string \<Rightarrow> string" where
  "basename_ext p ext =
     (let b = basename p in
      if p = ext then []
      else if length ext < length b \<and> drop (length b - length ext) b = ext
      then take (length b - length ext) b
      else b)"

definition path_join :: "string \<Rightarrow> string \<Rightarrow> string" where
  "path_join dir name = dir @ ''/'' @ name"

text \<open>\<^verbatim>\<open>String.prototype.replace\<close> with a string pattern: the first occurrence only.\<close>

fun replace :: "string \<Rightarrow> string \<Rightarrow> string \<Rightarrow> string" where
  "replace pattern replacement [] = []"
| "replace pattern replacement (c # cs) =
     (if take (length pattern) (c # cs) = pattern
      then replacement @ drop (length pattern) (c # cs)
      else c # replace pattern replacement cs)"

text \<open>The temporary files of repo mode, from the path of the file and the clock.\<close>

definition tempFileName :: "string \<Rightarrow> nat \<Rightarrow> string" where
  "tempFileName filePath now =
     ''fuzz-'' @ basename_ext filePath ''.ts'' @ ''-'' @ String_nat now @ ''.ts''"

definition tempFilePath :: "string \<Rightarrow> nat \<Rightarrow> string" where
  "tempFilePath filePath now = path_join ''/tmp'' (tempFileName filePath now)"

definition compiledFilePath :: "string \<Rightarrow> nat \<Rightarrow> string" where
  "compiledFilePath filePath now =
     path_join ''/tmp'' (replace ''.ts'' ''.js'' (tempFileName filePath now))"

text \<open>The files of code mode.\<close>

definition targetTsPath :: string where
  "targetTsPath = path_join ''/tmp'' ''fuzz-target.ts''"

definition compiledJsPath :: string where
  "compiledJsPath = path_join ''/tmp'' ''fuzz-target.js''"

section \<open>The discovery and execution loop\<close>

text \<open>
  The two arguments the loop gives to the synthesizer for a parameter:
  \<^verbatim>\<open>p.type?.kind ?? 131\<close> and \<^verbatim>\<open>p.type?.getText(sourceFileForAst) || ''\<close>.
\<close>

definition param_kind :: "(nat \<times> string) option \<Rightarrow> nat" where
  "param_kind p = (case p of None \<Rightarrow> 131 | Some (kind, text) \<Rightarrow> kind)"

definition param_text :: "(nat \<times> string) option \<Rightarrow> string" where
  "param_text p = (case p of None \<Rightarrow> [] | Some (kind, text) \<Rightarrow> text)"

text \<open>
  \<^verbatim>\<open>member.parameters.map(p => generateMockValue(...))\<close>: one value for each parameter, from
  left to right; a generator that throws ends it.
\<close>

fun mockArgs ::
  "(nat \<times> string) option list \<Rightarrow> 'h state \<Rightarrow> (thrown + jsval list) \<times> 'h state" where
  "mockArgs [] st = (Inr [], st)"
| "mockArgs (p # ps) st =
     (case generateMockValue (param_kind p) (param_text p) st of
        (Inl e, st') \<Rightarrow> (Inl e, st')
      | (Inr v, st') \<Rightarrow>
          (case mockArgs ps st' of
             (Inl e, st'') \<Rightarrow> (Inl e, st'')
           | (Inr vs, st'') \<Rightarrow> (Inr (v # vs), st'')))"

definition hasMethodDecorator :: "method_decl \<Rightarrow> bool" where
  "hasMethodDecorator m = list_ex (\<lambda>d. take 6 d = ''method'') (decorators m)"

definition isSmartContract :: "class_decl \<Rightarrow> bool" where
  "isSmartContract c =
     list_ex (\<lambda>clause. list_ex (\<lambda>t. t = ''SmartContract'') clause) (heritageClauses c)"

text \<open>
  The loop over the members of an instantiated class. Reading \<^verbatim>\<open>.bind\<close> of a method that
  the instance does not have throws a \<^verbatim>\<open>TypeError\<close>. Nothing in the loop catches: what
  \<^verbatim>\<open>executeFunction\<close> throws leaves the loop.
\<close>

fun run_members ::
  "string \<Rightarrow> 'h js_instance \<Rightarrow> member list \<Rightarrow> 'h state \<Rightarrow> (thrown + unit) \<times> 'h state" where
  "run_members className inst [] st = (Inr (), st)"
| "run_members className inst (OtherMember # ms) st = run_members className inst ms st"
| "run_members className inst (MethodDeclaration m # ms) st =
     (if hasMethodDecorator m then
        (case mockArgs (parameters m) st of
           (Inl e, st1) \<Rightarrow> (Inl e, st1)
         | (Inr args, st1) \<Rightarrow>
             (case inst (method_name m) of
                None \<Rightarrow>
                  (Inl (Error ''TypeError''
                     ''Cannot read properties of undefined (reading 'bind')''), st1)
              | Some func \<Rightarrow>
                  (case executeFunction (className @ ''.'' @ method_name m) func args st1 of
                     (Inl e, st2) \<Rightarrow> (Inl e, st2)
                   | (Inr u, st2) \<Rightarrow> run_members className inst ms st2)))
      else run_members className inst ms st)"

text \<open>
  The loop over the exports. A class that is missing from the module, or whose constructor
  throws, gets its line and the loop goes on with the next export.
\<close>

fun run_exports ::
  "'h js_module \<Rightarrow> export_decl option list \<Rightarrow> 'h state \<Rightarrow> (thrown + unit) \<times> 'h state" where
  "run_exports targetModule [] st = (Inr (), st)"
| "run_exports targetModule (None # exports) st = run_exports targetModule exports st"
| "run_exports targetModule (Some OtherDeclaration # exports) st =
     run_exports targetModule exports st"
| "run_exports targetModule (Some (ClassDeclaration c) # exports) st =
     (if isSmartContract c then
        let st1 = push (check_mark @ '' Found SmartContract: '' @ class_name c) st in
        (case targetModule (class_name c) of
           None \<Rightarrow>
             run_exports targetModule exports
               (push (''   - '' @ warning_sign @ ''  Class '' @ class_name c
                      @ '' not found in compiled module, skipping execution'') st1)
         | Some ClassToRun \<Rightarrow>
             (case on_heap (construct ClassToRun) st1 of
                (Inl e, st2) \<Rightarrow>
                  run_exports targetModule exports
                    (push (''   - '' @ cross_mark @ '' Failed to instantiate '' @ class_name c
                           @ '': '' @ error_message e)
                       (logger_error (''Failed to instantiate '' @ class_name c) st2))
              | (Inr inst, st2) \<Rightarrow>
                  (case run_members (class_name c) inst (members c)
                          (push (''   - Instantiated '' @ class_name c @ '' successfully.'') st2) of
                     (Inl e, st3) \<Rightarrow> (Inl e, st3)
                   | (Inr u, st3) \<Rightarrow> run_exports targetModule exports st3)))
      else run_exports targetModule exports st)"

text \<open>The dynamic import of the compiled file, with its fallback to the empty module.\<close>

definition import_target ::
  "'h env \<Rightarrow> string \<Rightarrow> 'h state \<Rightarrow> 'h js_module \<times> 'h state" where
  "import_target env compiledPath st =
     (case on_heap (import_module env
             (''file://'' @ compiledPath @ ''?v='' @ String_nat (Date_now env (heap st)))) st of
        (Inr m, st') \<Rightarrow> (m, logger_info ''Successfully imported compiled module'' st')
      | (Inl e, st') \<Rightarrow>
          (Map.empty,
           push ''   Will continue with AST analysis only''
             (push (warning_sign @ ''  Warning: Could not import compiled module: ''
                    @ error_message e)
                (logger_warn
                   ''Could not import compiled module, continuing with AST analysis only''
                   st'))))"

text \<open>The generators registered from the loaded module.\<close>

definition register_generators :: "'h env \<Rightarrow> 'h js_module \<Rightarrow> 'h state \<Rightarrow> 'h state" where
  "register_generators env targetModule st =
     (let st1 =
        (case targetModule ''Sudoku'' of
           None \<Rightarrow> st
         | Some Sudoku \<Rightarrow>
             push ''   - Registered custom mock generator for type 'Sudoku'.''
               (registerMockGenerator ''Sudoku'' (from_board Sudoku) st))
      in
        (case targetModule ''Player'' of
           None \<Rightarrow> st1
         | Some Player \<Rightarrow>
             if PrivateKey env then
               push ''   - Registered custom mock generator for type 'Player'.''
                 (registerMockGenerator ''Player'' (construct_player Player) st1)
             else st1))"

definition analyseAndRun_body ::
  "'h env \<Rightarrow> string \<Rightarrow> string \<Rightarrow> 'h state \<Rightarrow> (thrown + unit) \<times> 'h state" where
  "analyseAndRun_body env sourceTsPath compiledPath st =
     (let st1 = push (replicate 50 CHR ''-'')
                  (push (''   (Source: '' @ basename sourceTsPath @ '')'')
                     (push (newline @ ''Fuzzing file: '' @ basename compiledPath) st))
      in
        (case getSourceFile env sourceTsPath (heap st1) of
           NoSourceFile \<Rightarrow> (Inl (ResourceError ''Could not get source file AST''), st1)
         | NoModuleSymbol \<Rightarrow>
             (case import_target env compiledPath st1 of
                (targetModule, st2) \<Rightarrow>
                  (Inl (ResourceError ''Could not find module symbol''),
                   register_generators env targetModule st2))
         | Exports exports \<Rightarrow>
             (case import_target env compiledPath st1 of
                (targetModule, st2) \<Rightarrow>
                  run_exports targetModule exports (register_generators env targetModule st2))))"

definition analyseAndRun ::
  "'h env \<Rightarrow> string \<Rightarrow> string \<Rightarrow> 'h state \<Rightarrow> (thrown + unit) \<times> 'h state" where
  "analyseAndRun env sourceTsPath compiledPath st =
     safeExecute (analyseAndRun_body env sourceTsPath compiledPath) st"

section \<open>Repo mode: the files of a repository\<close>

definition memo_sign :: string where
  "memo_sign = [CHR 0xF0, CHR 0x9F, CHR 0x93, CHR 0x9D]"

text \<open>The cleanup after a file: the first \<^verbatim>\<open>unlinkSync\<close> that throws ends it with a warning.\<close>

definition cleanup :: "'h env \<Rightarrow> string \<Rightarrow> string \<Rightarrow> 'h state \<Rightarrow> 'h state" where
  "cleanup env tempPath compiledPath st =
     (case on_heap (unlinkSync env tempPath) st of
        (Inl e, st1) \<Rightarrow> logger_warn ''Failed to cleanup temporary files'' st1
      | (Inr u, st1) \<Rightarrow>
          (case on_heap (unlinkSync env compiledPath) st1 of
             (Inl e, st2) \<Rightarrow> logger_warn ''Failed to cleanup temporary files'' st2
           | (Inr u, st2) \<Rightarrow> st2))"

text \<open>
  The loop over the entries of \<^verbatim>\<open>fileContents\<close>: a file that does not compile gets a
  warning and the loop goes on; anything thrown by the write or by the run leaves the loop.
\<close>

fun process_files ::
  "'h env \<Rightarrow> (string \<times> string) list \<Rightarrow> 'h state \<Rightarrow> (thrown + unit) \<times> 'h state" where
  "process_files env [] st = (Inr (), st)"
| "process_files env ((filePath, content) # files) st =
     (let st1 = push (newline @ memo_sign @ '' Processing file: '' @ filePath) st;
          now = Date_now env (heap st1)
      in
        (case safeExecute (on_heap (writeFileSync env (tempFilePath filePath now) content)) st1 of
           (Inl e, st2) \<Rightarrow> (Inl e, st2)
         | (Inr u, st2) \<Rightarrow>
             (case on_heap (emit env (tempFilePath filePath now)) st2 of
                (Some diagnostics, st3) \<Rightarrow>
                  process_files env files
                    (push (''   Errors: '' @ join '', '' diagnostics)
                       (push (warning_sign @ ''  Warning: Compilation failed for '' @ filePath)
                          (logger_warn (''Compilation failed for '' @ filePath) st3)))
              | (None, st3) \<Rightarrow>
                  (case analyseAndRun env (tempFilePath filePath now)
                          (compiledFilePath filePath now)
                          (push (check_mark @ '' Successfully compiled '' @ filePath) st3) of
                     (Inl e, st4) \<Rightarrow> (Inl e, st4)
                   | (Inr u, st4) \<Rightarrow>
                       process_files env files
                         (cleanup env (tempFilePath filePath now)
                            (compiledFilePath filePath now) st4)))))"

definition processGitHubRepo ::
  "'h env \<Rightarrow> string \<Rightarrow> string \<Rightarrow> string \<Rightarrow> 'h state \<Rightarrow> (thrown + unit) \<times> 'h state" where
  "processGitHubRepo env repoUrl branch filePath st =
     safeExecute
       (\<lambda>st. case fetchFiles env repoUrl branch filePath st of
                (Inl e, st1) \<Rightarrow> (Inl e, st1)
              | (Inr fileContents, st1) \<Rightarrow>
                  if fileContents = []
                  then (Inl (ResourceError ''No files could be fetched from the repository''), st1)
                  else process_files env fileContents st1)
       st"

section \<open>The handler\<close>

text \<open>The body of the handler's \<^verbatim>\<open>try\<close>, up to the point where it returns or throws.\<close>

definition handler_try :: "'h env \<Rightarrow> string \<Rightarrow> 'h state \<Rightarrow> (thrown + unit) \<times> 'h state" where
  "handler_try env event_body st =
     (case parse env event_body of
        InvalidJSON \<Rightarrow> (Inl (ValidationError ''Invalid JSON in request body''), st)
      | Rejected e \<Rightarrow> (Inl e, st)
      | Accepted (RepoMode repoUrl branch filePath) \<Rightarrow>
          (let st1 = logger_info ''Request validated successfully'' st in
           case validateGitHubUrl env repoUrl of
             Some e \<Rightarrow> (Inl e, st1)
           | None \<Rightarrow>
               (case validateFilePath env filePath of
                  Some e \<Rightarrow> (Inl e, st1)
                | None \<Rightarrow>
                    processGitHubRepo env repoUrl (if branch = [] then ''main'' else branch)
                      filePath st1))
      | Accepted (CodeMode code) \<Rightarrow>
          (let st1 = logger_info ''Request validated successfully'' st in
           case validateTypeScriptCode env code of
             Some e \<Rightarrow> (Inl e, st1)
           | None \<Rightarrow>
               (case safeExecute (on_heap (writeFileSync env targetTsPath code)) st1 of
                  (Inl e, st2) \<Rightarrow> (Inl e, st2)
                | (Inr u, st2) \<Rightarrow>
                    (case on_heap (emit env targetTsPath)
                            (push (''Successfully wrote code to '' @ targetTsPath) st2) of
                       (Some diagnostics, st3) \<Rightarrow>
                         (Inl (CompilationError ''TypeScript compilation failed''), st3)
                     | (None, st3) \<Rightarrow>
                         analyseAndRun env targetTsPath compiledJsPath
                           (push (''Successfully compiled to '' @ compiledJsPath) st3)))))"

text \<open>
  The handler: it empties the transcript and the logger, runs the body, and answers with
  the success envelope or, from its \<^verbatim>\<open>catch\<close>, with \<^verbatim>\<open>createErrorResponse\<close> on the
  transcript as it stands.
\<close>

definition handler :: "'h env \<Rightarrow> string \<Rightarrow> 'h state \<Rightarrow> response \<times> 'h state" where
  "handler env event_body st0 =
     (case handler_try env event_body
             (logger_info ''Lambda handler started'' (logger_clear (st0\<lparr>outputLogs := []\<rparr>))) of
        (Inr u, st) \<Rightarrow>
          (\<lparr>statusCode = 200,
            body = SuccessBody ''Fuzzing complete.'' (join newline (outputLogs st)) (getSummary st)\<rparr>,
           logger_info ''Fuzzing completed successfully'' st)
      | (Inl e, st) \<Rightarrow>
          (createErrorResponse e (outputLogs st), logger_error ''Lambda handler failed'' st))"

section \<open>Example inputs\<close>

text \<open>
  The state of the module as it is loaded: an empty transcript, an empty logger and an
  empty registry.
\<close>

definition initial_state :: "(nat \<Rightarrow> rat) \<Rightarrow> 'h \<Rightarrow> 'h state" where
  "initial_state rs h =
     \<lparr>outputLogs = [], logs = [], mockGeneratorRegistry = Map.empty, heap = h,
      random = rs, drawn = 0\<rparr>"

text \<open>
  In the examples the heap is the list of the calls the user's code has received, and
  \<open>fresh r\<close> is the module as loaded, with no call yet, where every \<^verbatim>\<open>Math.random()\<close>
  gives \<open>r\<close>. A method that returns and one that throws an \<^verbatim>\<open>Error\<close>; a class whose
  constructor succeeds and one whose constructor throws.
\<close>

definition fresh :: "rat \<Rightarrow> string list state" where
  "fresh r = initial_state (\<lambda>n. r) []"

definition returning :: "string \<Rightarrow> jsval \<Rightarrow> string list js_method" where
  "returning name result args h = (Inr result, h @ [name])"

definition throwing :: "string \<Rightarrow> string \<Rightarrow> string list js_method" where
  "throwing name message args h = (Inl (Error ''Error'' message), h @ [name])"

definition unused :: "string list generator" where
  "unused h = (Inr JUndefined, h)"

definition class_of :: "string \<Rightarrow> string list js_instance \<Rightarrow> string list export_value" where
  "class_of name inst =
     \<lparr>construct = (\<lambda>h. (Inr inst, h @ [''new '' @ name])),
      from_board = unused, construct_player = unused\<rparr>"

definition failing_class :: "string \<Rightarrow> string \<Rightarrow> string list export_value" where
  "failing_class name message =
     \<lparr>construct = (\<lambda>h. (Inl (Error ''Error'' message), h @ [''new '' @ name])),
      from_board = unused, construct_player = unused\<rparr>"

text \<open>A module that exports \<^verbatim>\<open>Sudoku\<close>, whose \<^verbatim>\<open>from\<close> behaves as given.\<close>

definition sudoku_module :: "string list generator \<Rightarrow> string list js_module" where
  "sudoku_module from_empty =
     [''Sudoku'' \<mapsto>
        \<lparr>construct = (\<lambda>h. (Inr Map.empty, h)), from_board = from_empty,
         construct_player = unused\<rparr>]"

definition smart_contract :: "string \<Rightarrow> member list \<Rightarrow> class_decl" where
  "smart_contract name ms =
     \<lparr>class_name = name, heritageClauses = [[''SmartContract'']], members = ms\<rparr>"

definition fuzzable :: "string \<Rightarrow> (nat \<times> string) option list \<Rightarrow> method_decl" where
  "fuzzable name ps = \<lparr>method_name = name, decorators = [''method''], parameters = ps\<rparr>"

text \<open>
  \<^verbatim>\<open>class Counter extends SmartContract { @method boom(n: number) {...} @method after() {...} }\<close>
  followed by \<^verbatim>\<open>class Second extends SmartContract { @method run() {...} }\<close>, and a module
  in which \<^verbatim>\<open>boom\<close> throws.
\<close>

definition Counter :: class_decl where
  "Counter =
     smart_contract ''Counter''
       [MethodDeclaration (fuzzable ''boom'' [Some (148, ''number'')]),
        MethodDeclaration (fuzzable ''after'' [])]"

definition Second :: class_decl where
  "Second = smart_contract ''Second'' [MethodDeclaration (fuzzable ''run'' [])]"

definition two_classes :: "export_decl option list" where
  "two_classes = [Some (ClassDeclaration Counter), Some (ClassDeclaration Second)]"

definition Counter_instance :: "string list js_instance" where
  "Counter_instance =
     [''boom'' \<mapsto> throwing ''boom'' ''boom'', ''after'' \<mapsto> returning ''after'' JUndefined]"

definition Second_instance :: "string list js_instance" where
  "Second_instance = [''run'' \<mapsto> returning ''run'' (JNum 1)]"

definition boom_module :: "string list js_module" where
  "boom_module =
     [''Counter'' \<mapsto> class_of ''Counter'' Counter_instance,
      ''Second'' \<mapsto> class_of ''Second'' Second_instance]"

text \<open>A module in which \<^verbatim>\<open>Counter\<close> is missing, and one in which its constructor throws.\<close>

definition missing_module :: "string list js_module" where
  "missing_module = [''Second'' \<mapsto> class_of ''Second'' Second_instance]"

definition broken_module :: "string list js_module" where
  "broken_module =
     [''Counter'' \<mapsto> failing_class ''Counter'' ''no state'',
      ''Second'' \<mapsto> class_of ''Second'' Second_instance]"

text \<open>
  \<^verbatim>\<open>class Game extends SmartContract { @method play(s: Sudoku) {...} }\<close> in a module that
  exports \<^verbatim>\<open>Sudoku\<close> too; 180 is the kind of a type reference.
\<close>

definition Game :: class_decl where
  "Game = smart_contract ''Game'' [MethodDeclaration (fuzzable ''play'' [Some (180, ''Sudoku'')])]"

definition game_module :: "string list generator \<Rightarrow> string list js_module" where
  "game_module from_empty =
     (sudoku_module from_empty)
       (''Game'' \<mapsto> class_of ''Game'' [''play'' \<mapsto> returning ''play'' JUndefined])"

definition from_returns_null :: "string list generator" where
  "from_returns_null h = (Inr JNull, h @ [''Sudoku.from''])"

definition from_is_missing :: "string list generator" where
  "from_is_missing h =
     (Inl (Error ''TypeError'' ''targetModule.Sudoku.from is not a function''), h)"

text \<open>
  Collaborators for a run in code mode: the body is taken as the code unless it is the text
  \<^verbatim>\<open>not json\<close>, the compiler emits, the import gives the module and the syntax tree has the
  exports. The file system and the import leave their calls on the heap, and the clock reads
  the number of calls so far.
\<close>

definition example_env ::
  "string list js_module \<Rightarrow> export_decl option list \<Rightarrow> string list env" where
  "example_env m exports =
     \<lparr>parse = (\<lambda>b. if b = ''not json'' then InvalidJSON else Accepted (CodeMode b)),
      validateGitHubUrl = (\<lambda>url. None),
      validateFilePath = (\<lambda>path. None),
      validateTypeScriptCode =
        (\<lambda>code. if length code < 10
                then Some (ValidationError ''Code must be at least 10 characters long'')
                else None),
      writeFileSync = (\<lambda>path content h. (Inr (), h @ [''write '' @ path])),
      unlinkSync = (\<lambda>path h. (Inr (), h @ [''unlink '' @ path])),
      emit = (\<lambda>path h. (None, h @ [''emit '' @ path])),
      getSourceFile = (\<lambda>path h. Exports exports),
      import_module = (\<lambda>url h. (Inr m, h @ [''import''])),
      Date_now = (\<lambda>h. length h),
      PrivateKey = False,
      fetchFiles = (\<lambda>repoUrl branch filePath st. (Inr [(filePath, ''export {}'')], st))\<rparr>"

section \<open>Collections of definitions for evaluation\<close>

lemmas ErrorCodes_defs =
  INVALID_INPUT_def COMPILATION_ERROR_def IMPORT_ERROR_def EXECUTION_ERROR_def
  VALIDATION_ERROR_def RESOURCE_ERROR_def TIMEOUT_ERROR_def UNKNOWN_ERROR_def

lemmas error_class_defs =
  CompilationError_def ImportError_def ExecutionError_def ValidationError_def
  ResourceError_def TimeoutError_def

lemmas logger_defs =
  logger_log_def logger_info_def logger_warn_def logger_error_def
  methodCall_def methodResult_def methodError_def

lemmas example_defs =
  initial_state_def fresh_def returning_def throwing_def unused_def class_of_def
  failing_class_def sudoku_module_def smart_contract_def fuzzable_def Counter_def Second_def
  two_classes_def Counter_instance_def Second_instance_def boom_module_def missing_module_def
  broken_module_def Game_def game_module_def from_returns_null_def from_is_missing_def
  example_env_def

lemmas harness_defs =
  handler_def handler_try_def analyseAndRun_def analyseAndRun_body_def import_target_def
  register_generators_def registerMockGenerator_def safeExecute_def on_heap_def push_def
  append_last_def logger_defs logger_clear_def executeFunction_def isSmartContract_def
  hasMethodDecorator_def param_kind_def param_text_def generateMockValue_def Math_random_def
  targetTsPath_def compiledJsPath_def path_join_def basename_def getSummary_def
  error_class_defs ErrorCodes_defs getStatusCodeForError_def statusCodeMap_def
  String_int_def String_nat.simps digit36_def alphabet36_def part_def template_def Let_def

section \<open>The status of a failure response\<close>

text \<open>
  C6. The table sends validation to 400, compilation, import and execution to 422,
  resource to 503, timeout to 408 and unknown to 500 (and the code \<^verbatim>\<open>INVALID_INPUT\<close>, which
  no error class carries, to 400); no code gets another status. The failure response built
  for a thrown value carries the table's status for the code of a \<^verbatim>\<open>FuzzerError\<close>, and 500
  for anything that is not one.
\<close>

theorem status_mapping:
  "getStatusCodeForError VALIDATION_ERROR = 400
   \<and> getStatusCodeForError COMPILATION_ERROR = 422
   \<and> getStatusCodeForError IMPORT_ERROR = 422
   \<and> getStatusCodeForError EXECUTION_ERROR = 422
   \<and> getStatusCodeForError RESOURCE_ERROR = 503
   \<and> getStatusCodeForError TIMEOUT_ERROR = 408
   \<and> getStatusCodeForError UNKNOWN_ERROR = 500
   \<and> getStatusCodeForError INVALID_INPUT = 400
   \<and> getStatusCodeForError code \<in> {400, 408, 422, 500, 503}
   \<and> statusCode (createErrorResponse (FuzzerError name message code) transcript)
       = getStatusCodeForError code
   \<and> statusCode (createErrorResponse (ValidationError message) transcript) = 400
   \<and> statusCode (createErrorResponse (CompilationError message) transcript) = 422
   \<and> statusCode (createErrorResponse (ImportError message) transcript) = 422
   \<and> statusCode (createErrorResponse (ExecutionError message) transcript) = 422
   \<and> statusCode (createErrorResponse (ResourceError message) transcript) = 503
   \<and> statusCode (createErrorResponse (TimeoutError message) transcript) = 408
   \<and> statusCode (createErrorResponse (Error name message) transcript) = 500"
proof -
  have "getStatusCodeForError code \<in> {400, 408, 422, 500, 503}"
    by (simp add: getStatusCodeForError_def statusCodeMap_def ErrorCodes_defs)
  then show ?thesis
    by (simp add: getStatusCodeForError_def statusCodeMap_def ErrorCodes_defs error_class_defs)
qed

section \<open>The synthesizer\<close>







text \<open>
  C10. The registry comes first: where a generator is registered under the type text, the
  synthesizer runs it and returns what it returns, whatever the kind, the three primitive
  kinds included.
\<close>

theorem registry_precedence:
  assumes "mockGeneratorRegistry st typeName = Some generator"
  shows "generateMockValue typeKind typeName st = on_heap generator st"
  using assms by (simp add: generateMockValue_def)

text \<open>A generator registered under \<^verbatim>\<open>number\<close> replaces the number of kind 148.\<close>

theorem registry_precedence_witness:
  "generateMockValue 148 ''number''
     (registerMockGenerator ''number'' (\<lambda>h. (Inr (JStr ''custom''), h @ [''generator'']))
        (fresh (1 / 2)))
   = (Inr (JStr ''custom''),
      \<lparr>outputLogs = [], logs = [],
       mockGeneratorRegistry =
         [''number'' \<mapsto> (\<lambda>h. (Inr (JStr ''custom''), h @ [''generator'']))],
       heap = [''generator''], random = (\<lambda>n. 1 / 2), drawn = 0\<rparr>)"
  using registry_precedence[of
      "registerMockGenerator ''number'' (\<lambda>h. (Inr (JStr ''custom''), h @ [''generator'']))
        (fresh (1 / 2))"
      "''number''" "\<lambda>h. (Inr (JStr ''custom''), h @ [''generator''])" 148]
  by (simp add: registerMockGenerator_def initial_state_def fresh_def on_heap_def)







section \<open>Executing one method\<close>









section \<open>The class loop\<close>








section \<open>The transcript only grows\<close>

text \<open>
  No step of the harness removes a line or rewrites one that was there when the step began:
  the transcript before a step is a prefix of the transcript after it. The only line ever
  rewritten is the call line of the method being executed, by the call that wrote it. The
  acquisition of repository files is outside the model, so the property is assumed of it.
\<close>

lemma generateMockValue_transcript:
  "generateMockValue typeKind typeName st = (result, st') \<Longrightarrow> outputLogs st' = outputLogs st"
  by (auto simp: generateMockValue_def on_heap_def Math_random_def
      split: option.splits prod.splits if_splits)

lemma mockArgs_transcript:
  "mockArgs ps st = (result, st') \<Longrightarrow> outputLogs st' = outputLogs st"
proof (induction ps arbitrary: st result st')
  case Nil
  then show ?case by simp
next
  case (Cons p ps)
  then show ?case
    by (auto split: prod.splits sum.splits dest: generateMockValue_transcript)
qed

lemma executeFunction_transcript:
  "executeFunction name func args st = (result, st') \<Longrightarrow> prefix (outputLogs st) (outputLogs st')"
  by (auto simp: executeFunction_def safeExecute_def on_heap_def push_def append_last_def
      logger_defs Let_def split: prod.splits sum.splits if_splits)

lemma run_members_transcript:
  "run_members className inst ms st = (result, st') \<Longrightarrow> prefix (outputLogs st) (outputLogs st')"
proof (induction className inst ms st arbitrary: result st' rule: run_members.induct)
  case (1 className inst st)
  then show ?case by simp
next
  case (2 className inst ms st)
  then show ?case by simp
next
  case (3 className inst m ms st)
  show ?case
  proof (cases "hasMethodDecorator m")
    case False
    with 3 show ?thesis by simp
  next
    case True
    obtain r1 st1 where args: "mockArgs (parameters m) st = (r1, st1)"
      by (cases "mockArgs (parameters m) st")
    note t1 = mockArgs_transcript[OF args]
    show ?thesis
    proof (cases r1)
      case (Inl e)
      with 3(3) True args t1 show ?thesis by simp
    next
      case (Inr vs)
      show ?thesis
      proof (cases "inst (method_name m)")
        case None
        with 3(3) True args Inr t1 show ?thesis by simp
      next
        case (Some func)
        obtain r2 st2 where run:
          "executeFunction (className @ ''.'' @ method_name m) func vs st1 = (r2, st2)"
          by (cases "executeFunction (className @ ''.'' @ method_name m) func vs st1")
        note t2 = executeFunction_transcript[OF run]
        show ?thesis
        proof (cases r2)
          case (Inl e)
          with 3(3) True args Inr Some run t1 t2 show ?thesis by simp
        next
          case (Inr u)
          with 3(3) True args \<open>r1 = Inr vs\<close> Some run
          have "run_members className inst ms st2 = (result, st')" by simp
          from "3.IH"(1)[OF True args[symmetric] _ Some run[symmetric] _ this]
          have "prefix (outputLogs st2) (outputLogs st')"
            using \<open>r1 = Inr vs\<close> Inr by simp
          with t1 t2 show ?thesis by (simp add: prefix_order.trans)
        qed
      qed
    qed
  qed
qed

lemma run_exports_transcript:
  "run_exports targetModule exports st = (result, st')
   \<Longrightarrow> prefix (outputLogs st) (outputLogs st')"
proof (induction targetModule exports st arbitrary: result st' rule: run_exports.induct)
  case (1 targetModule st)
  then show ?case by simp
next
  case (2 targetModule exports st)
  then show ?case by simp
next
  case (3 targetModule exports st)
  then show ?case by simp
next
  case (4 targetModule c exports st)
  let ?st1 = "push (check_mark @ '' Found SmartContract: '' @ class_name c) st"
  show ?case
  proof (cases "isSmartContract c")
    case False
    with "4.prems" "4.IH"(4) show ?thesis by simp
  next
    case True
    show ?thesis
    proof (cases "targetModule (class_name c)")
      case None
      let ?st2 = "push (''   - '' @ warning_sign @ ''  Class '' @ class_name c
                      @ '' not found in compiled module, skipping execution'') ?st1"
      from "4.prems" True None have "run_exports targetModule exports ?st2 = (result, st')"
        by (simp add: Let_def)
      from "4.IH"(1)[OF True refl None this]
      have rest: "prefix (outputLogs ?st2) (outputLogs st')" .
      have "prefix (outputLogs st) (outputLogs ?st2)"
        by (simp add: push_def)
      from this rest show ?thesis by (rule prefix_order.trans)
    next
      case (Some ClassToRun)
      obtain r2 st2 where made: "on_heap (construct ClassToRun) ?st1 = (r2, st2)"
        by (cases "on_heap (construct ClassToRun) ?st1")
      then have t2: "outputLogs st2 = outputLogs st @ [check_mark @ '' Found SmartContract: ''
                       @ class_name c]"
        by (auto simp: on_heap_def push_def split: prod.splits)
      show ?thesis
      proof (cases r2)
        case (Inl e)
        let ?st3 = "push (''   - '' @ cross_mark @ '' Failed to instantiate '' @ class_name c
                           @ '': '' @ error_message e)
                       (logger_error (''Failed to instantiate '' @ class_name c) st2)"
        from "4.prems" True Some made Inl
        have "run_exports targetModule exports ?st3 = (result, st')"
          by (simp add: Let_def)
        from "4.IH"(2)[OF True refl Some made[symmetric] Inl this]
        have rest: "prefix (outputLogs ?st3) (outputLogs st')" .
        have "prefix (outputLogs st) (outputLogs ?st3)"
          using t2 by (simp add: push_def logger_defs)
        from this rest show ?thesis by (rule prefix_order.trans)
      next
        case (Inr inst)
        let ?st3 = "push (''   - Instantiated '' @ class_name c @ '' successfully.'') st2"
        obtain r4 st4 where ran: "run_members (class_name c) inst (members c) ?st3 = (r4, st4)"
          by (cases "run_members (class_name c) inst (members c) ?st3")
        have "prefix (outputLogs st) (outputLogs ?st3)"
          using t2 by (simp add: push_def)
        from this run_members_transcript[OF ran]
        have t4: "prefix (outputLogs st) (outputLogs st4)"
          by (rule prefix_order.trans)
        show ?thesis
        proof (cases r4)
          case (Inl e)
          with "4.prems" True Some made \<open>r2 = Inr inst\<close> ran t4 show ?thesis
            by (simp add: Let_def)
        next
          case (Inr u)
          with "4.prems" True Some made \<open>r2 = Inr inst\<close> ran
          have "run_exports targetModule exports st4 = (result, st')"
            by (simp add: Let_def)
          from "4.IH"(3)[OF True refl Some made[symmetric] \<open>r2 = Inr inst\<close> ran[symmetric] Inr this]
          have "prefix (outputLogs st4) (outputLogs st')" .
          with t4 show ?thesis by (rule prefix_order.trans)
        qed
      qed
    qed
  qed
qed

lemma import_target_transcript:
  "import_target env compiledPath st = (targetModule, st')
   \<Longrightarrow> prefix (outputLogs st) (outputLogs st')"
  by (auto simp: import_target_def on_heap_def push_def logger_defs prefix_def
      split: prod.splits sum.splits)

lemma register_generators_transcript:
  "prefix (outputLogs st) (outputLogs (register_generators env targetModule st))"
  by (auto simp: register_generators_def registerMockGenerator_def push_def prefix_def Let_def
      split: option.splits)

lemma analyseAndRun_transcript:
  assumes "analyseAndRun env sourceTsPath compiledPath st = (result, st')"
  shows "prefix (outputLogs st) (outputLogs st')"
proof -
  let ?st1 = "push (replicate 50 CHR ''-'')
                (push (''   (Source: '' @ basename sourceTsPath @ '')'')
                   (push (newline @ ''Fuzzing file: '' @ basename compiledPath) st))"
  have t1: "prefix (outputLogs st) (outputLogs ?st1)"
    by (simp add: push_def prefix_def)
  obtain targetModule st2 where imported: "import_target env compiledPath ?st1 = (targetModule, st2)"
    by (cases "import_target env compiledPath ?st1")
  note t2 = import_target_transcript[OF imported]
  note t3 = register_generators_transcript[of st2 env targetModule]
  have t123: "prefix (outputLogs st) (outputLogs (register_generators env targetModule st2))"
    by (rule prefix_order.trans[OF prefix_order.trans[OF t1 t2] t3])
  show ?thesis
  proof (cases "getSourceFile env sourceTsPath (heap ?st1)")
    case NoSourceFile
    with assms t1 show ?thesis
      by (auto simp: analyseAndRun_def analyseAndRun_body_def safeExecute_def Let_def)
  next
    case NoModuleSymbol
    with assms imported t123 show ?thesis
      by (auto simp: analyseAndRun_def analyseAndRun_body_def safeExecute_def Let_def)
  next
    case (Exports exports)
    obtain r4 st4 where ran:
      "run_exports targetModule exports (register_generators env targetModule st2) = (r4, st4)"
      by (cases "run_exports targetModule exports (register_generators env targetModule st2)")
    from t123 run_exports_transcript[OF ran]
    have "prefix (outputLogs st) (outputLogs st4)" by (rule prefix_order.trans)
    with assms Exports imported ran show ?thesis
      by (auto simp: analyseAndRun_def analyseAndRun_body_def safeExecute_def Let_def
          split: sum.splits)
  qed
qed

lemma cleanup_transcript: "outputLogs (cleanup env tempPath compiledPath st) = outputLogs st"
  by (auto simp: cleanup_def on_heap_def logger_defs split: prod.splits sum.splits)

lemma process_files_transcript:
  "process_files env files st = (result, st') \<Longrightarrow> prefix (outputLogs st) (outputLogs st')"
proof (induction files arbitrary: st result st')
  case Nil
  then show ?case by simp
next
  case (Cons entry files)
  obtain filePath content where entry: "entry = (filePath, content)"
    by (cases entry)
  let ?st1 = "push (newline @ memo_sign @ '' Processing file: '' @ filePath) st"
  let ?now = "Date_now env (heap ?st1)"
  have t1: "prefix (outputLogs st) (outputLogs ?st1)"
    by (simp add: push_def)
  obtain r2 st2 where written:
    "safeExecute (on_heap (writeFileSync env (tempFilePath filePath ?now) content)) ?st1 = (r2, st2)"
    by (cases "safeExecute (on_heap (writeFileSync env (tempFilePath filePath ?now) content)) ?st1")
  then have t2: "outputLogs st2 = outputLogs ?st1"
    by (auto simp: safeExecute_def on_heap_def split: prod.splits sum.splits)
  show ?case
  proof (cases r2)
    case (Inl e)
    with Cons.prems entry written t1 t2 show ?thesis by (simp add: Let_def)
  next
    case (Inr u)
    obtain r3 st3 where emitted:
      "on_heap (emit env (tempFilePath filePath ?now)) st2 = (r3, st3)"
      by (cases "on_heap (emit env (tempFilePath filePath ?now)) st2")
    then have t3: "outputLogs st3 = outputLogs st2"
      by (auto simp: on_heap_def split: prod.splits)
    show ?thesis
    proof (cases r3)
      case (Some diagnostics)
      let ?st4 = "push (''   Errors: '' @ join '', '' diagnostics)
                    (push (warning_sign @ ''  Warning: Compilation failed for '' @ filePath)
                       (logger_warn (''Compilation failed for '' @ filePath) st3))"
      from Cons.prems entry written Inr emitted Some
      have "process_files env files ?st4 = (result, st')"
        by (simp add: Let_def)
      from Cons.IH[OF this] have rest: "prefix (outputLogs ?st4) (outputLogs st')" .
      have "prefix (outputLogs st) (outputLogs ?st4)"
        using t2 t3 by (simp add: push_def logger_defs)
      from this rest show ?thesis by (rule prefix_order.trans)
    next
      case None
      let ?st4 = "push (check_mark @ '' Successfully compiled '' @ filePath) st3"
      obtain r5 st5 where ran:
        "analyseAndRun env (tempFilePath filePath ?now) (compiledFilePath filePath ?now) ?st4
         = (r5, st5)"
        by (cases "analyseAndRun env (tempFilePath filePath ?now)
                     (compiledFilePath filePath ?now) ?st4")
      have "prefix (outputLogs st) (outputLogs ?st4)"
        using t2 t3 by (simp add: push_def)
      from this analyseAndRun_transcript[OF ran]
      have t5: "prefix (outputLogs st) (outputLogs st5)" by (rule prefix_order.trans)
      show ?thesis
      proof (cases r5)
        case (Inl e)
        with Cons.prems entry written \<open>r2 = Inr u\<close> emitted None ran t5 show ?thesis
          by (simp add: Let_def)
      next
        case (Inr v)
        let ?st6 = "cleanup env (tempFilePath filePath ?now) (compiledFilePath filePath ?now) st5"
        from Cons.prems entry written \<open>r2 = Inr u\<close> emitted None ran Inr
        have "process_files env files ?st6 = (result, st')"
          by (simp add: Let_def)
        from Cons.IH[OF this] have "prefix (outputLogs ?st6) (outputLogs st')" .
        with t5 show ?thesis by (simp add: cleanup_transcript prefix_order.trans)
      qed
    qed
  qed
qed

lemma handler_try_transcript:
  assumes fetch: "\<And>repoUrl branch filePath st r st1.
      fetchFiles env repoUrl branch filePath st = (r, st1)
      \<Longrightarrow> prefix (outputLogs st) (outputLogs st1)"
    and run: "handler_try env event_body st = (result, st')"
  shows "prefix (outputLogs st) (outputLogs st')"
proof (cases "parse env event_body")
  case InvalidJSON
  with run show ?thesis by (simp add: handler_try_def)
next
  case (Rejected e)
  with run show ?thesis by (simp add: handler_try_def)
next
  case (Accepted request)
  let ?st1 = "logger_info ''Request validated successfully'' st"
  have t1: "outputLogs ?st1 = outputLogs st" by (simp add: logger_defs)
  show ?thesis
  proof (cases request)
    case (CodeMode code)
    show ?thesis
    proof (cases "validateTypeScriptCode env code")
      case (Some e)
      with run Accepted CodeMode t1 show ?thesis by (simp add: handler_try_def Let_def)
    next
      case None
      obtain r2 st2 where written:
        "safeExecute (on_heap (writeFileSync env targetTsPath code)) ?st1 = (r2, st2)"
        by (cases "safeExecute (on_heap (writeFileSync env targetTsPath code)) ?st1")
      then have t2: "outputLogs st2 = outputLogs st"
        by (auto simp: safeExecute_def on_heap_def logger_defs split: prod.splits sum.splits)
      show ?thesis
      proof (cases r2)
        case (Inl e)
        with run Accepted CodeMode None written t2 show ?thesis
          by (simp add: handler_try_def Let_def)
      next
        case (Inr u)
        let ?st3 = "push (''Successfully wrote code to '' @ targetTsPath) st2"
        obtain r4 st4 where emitted: "on_heap (emit env targetTsPath) ?st3 = (r4, st4)"
          by (cases "on_heap (emit env targetTsPath) ?st3")
        then have t4: "prefix (outputLogs st) (outputLogs st4)"
          using t2 by (auto simp: on_heap_def push_def split: prod.splits)
        show ?thesis
        proof (cases r4)
          case (Some diagnostics)
          with run Accepted CodeMode None written Inr emitted t4 show ?thesis
            by (simp add: handler_try_def Let_def)
        next
          case None': None
          let ?st5 = "push (''Successfully compiled to '' @ compiledJsPath) st4"
          from run Accepted CodeMode None written Inr emitted None'
          have "analyseAndRun env targetTsPath compiledJsPath ?st5 = (result, st')"
            by (simp add: handler_try_def Let_def)
          from analyseAndRun_transcript[OF this]
          have rest: "prefix (outputLogs ?st5) (outputLogs st')" .
          have "prefix (outputLogs st) (outputLogs ?st5)"
            using t4 by (auto simp: push_def prefix_def)
          from this rest show ?thesis by (rule prefix_order.trans)
        qed
      qed
    qed
  next
    case (RepoMode repoUrl branch filePath)
    let ?branch = "if branch = [] then ''main'' else branch"
    show ?thesis
    proof (cases "validateGitHubUrl env repoUrl")
      case (Some e)
      with run Accepted RepoMode t1 show ?thesis by (simp add: handler_try_def Let_def)
    next
      case None
      show ?thesis
      proof (cases "validateFilePath env filePath")
        case (Some e)
        with run Accepted RepoMode None t1 show ?thesis by (simp add: handler_try_def Let_def)
      next
        case None': None
        obtain r2 st2 where fetched: "fetchFiles env repoUrl ?branch filePath ?st1 = (r2, st2)"
          by (cases "fetchFiles env repoUrl ?branch filePath ?st1")
        from fetch[OF fetched] t1 have t2: "prefix (outputLogs st) (outputLogs st2)" by simp
        from run Accepted RepoMode None None'
        have repo: "processGitHubRepo env repoUrl ?branch filePath ?st1 = (result, st')"
          by (simp add: handler_try_def Let_def)
        show ?thesis
        proof (cases r2)
          case (Inl e)
          with repo fetched t2 show ?thesis
            by (auto simp: processGitHubRepo_def safeExecute_def)
        next
          case (Inr fileContents)
          show ?thesis
          proof (cases "fileContents = []")
            case True
            with repo fetched Inr t2 show ?thesis
              by (auto simp: processGitHubRepo_def safeExecute_def)
          next
            case False
            obtain r3 st3 where processed: "process_files env fileContents st2 = (r3, st3)"
              by (cases "process_files env fileContents st2")
            from t2 process_files_transcript[OF processed]
            have "prefix (outputLogs st) (outputLogs st3)" by (rule prefix_order.trans)
            with repo fetched Inr False processed show ?thesis
              by (auto simp: processGitHubRepo_def safeExecute_def split: sum.splits)
          qed
        qed
      qed
    qed
  qed
qed

section \<open>The failure response of the handler\<close>



section \<open>The temporary files\<close>

lemma digit36_decimal:
  assumes "d < 10"
  shows "digit36 d \<in> set ''0123456789'' \<and> (of_char (digit36 d) :: nat) = 48 + d"
proof -
  have "\<forall>d\<in>set [0..<10].
          digit36 d \<in> set ''0123456789'' \<and> (of_char (digit36 d) :: nat) = 48 + d"
    by code_simp
  with assms show ?thesis by simp
qed

lemma String_nat_decimal: "set (String_nat n) \<subseteq> set ''0123456789''"
proof (induction n rule: String_nat.induct)
  case (1 n)
  show ?case
  proof (cases "n < 10")
    case True
    with digit36_decimal[of n] show ?thesis
      by (subst String_nat.simps) simp
  next
    case False
    have "n mod 10 < 10" by simp
    with digit36_decimal[of "n mod 10"] "1.IH"[OF False] False show ?thesis
      by (subst String_nat.simps) simp
  qed
qed

lemma String_nat_value:
  "foldl (\<lambda>a c. 10 * a + ((of_char c :: nat) - 48)) 0 (String_nat n) = n"
proof (induction n rule: String_nat.induct)
  case (1 n)
  show ?case
  proof (cases "n < 10")
    case True
    with digit36_decimal[of n] show ?thesis
      by (subst String_nat.simps) simp
  next
    case False
    have "n mod 10 < 10" by simp
    with digit36_decimal[of "n mod 10"] "1.IH"[OF False] False show ?thesis
      by (subst String_nat.simps) simp
  qed
qed

lemma String_nat_inject: "String_nat a = String_nat b \<longleftrightarrow> a = b"
proof
  assume "String_nat a = String_nat b"
  then have "foldl (\<lambda>a c. 10 * a + ((of_char c :: nat) - 48)) 0 (String_nat a)
             = foldl (\<lambda>a c. 10 * a + ((of_char c :: nat) - 48)) 0 (String_nat b)" by simp
  then show "a = b" by (simp only: String_nat_value)
qed simp

lemma first_occurrence:
  "x \<notin> set xs \<Longrightarrow> x \<notin> set xs' \<Longrightarrow> xs @ x # ys = xs' @ x # ys'
   \<Longrightarrow> xs = xs' \<and> ys = ys'"
proof (induction xs arbitrary: xs')
  case Nil
  then show ?case by (cases xs') auto
next
  case (Cons a xs)
  then show ?case by (cases xs') auto
qed

lemma last_dash:
  assumes "CHR ''-'' \<notin> set ds" and "CHR ''-'' \<notin> set es"
  shows "bs @ CHR ''-'' # ds = cs @ CHR ''-'' # es \<longleftrightarrow> bs = cs \<and> ds = es"
proof
  assume "bs @ CHR ''-'' # ds = cs @ CHR ''-'' # es"
  then have "rev (bs @ CHR ''-'' # ds) = rev (cs @ CHR ''-'' # es)" by simp
  then have eq: "rev ds @ CHR ''-'' # rev bs = rev es @ CHR ''-'' # rev cs" by simp
  have "CHR ''-'' \<notin> set (rev ds)" "CHR ''-'' \<notin> set (rev es)"
    using assms by simp_all
  from first_occurrence[OF this eq] show "bs = cs \<and> ds = es" by simp
qed simp

lemma no_dash: "CHR ''-'' \<notin> set (String_nat n)"
  using String_nat_decimal[of n] by auto

text \<open>
  C8, as the code has it. In repo mode the path of a temporary source file is made of the
  basename of the file and of the clock's reading in milliseconds: two paths are equal
  exactly when the basenames are equal and the readings are equal. The path does not
  identify the invocation beyond that.
\<close>

theorem temporary_paths:
  "tempFilePath f1 t1 = tempFilePath f2 t2
   \<longleftrightarrow> basename_ext f1 ''.ts'' = basename_ext f2 ''.ts'' \<and> t1 = t2"
proof -
  have "tempFilePath f1 t1 = tempFilePath f2 t2
        \<longleftrightarrow> basename_ext f1 ''.ts'' @ CHR ''-'' # String_nat t1
            = basename_ext f2 ''.ts'' @ CHR ''-'' # String_nat t2"
    by (simp add: tempFilePath_def tempFileName_def path_join_def)
  also have "\<dots> \<longleftrightarrow> basename_ext f1 ''.ts'' = basename_ext f2 ''.ts''
                   \<and> String_nat t1 = String_nat t2"
    by (rule last_dash[OF no_dash no_dash])
  finally show ?thesis
    by (simp add: String_nat_inject)
qed

text \<open>
  Two invocations in code mode, with different code, write the same file
  \<^verbatim>\<open>/tmp/fuzz-target.ts\<close>; and in repo mode two files with the same basename, read at the
  same millisecond, get the same path.
\<close>

theorem invocations_share_paths:
  "heap (snd (handler (example_env missing_module two_classes)
      ''class Counter extends SmartContract {}'' (fresh (1 / 2))))
   = [''write /tmp/fuzz-target.ts'', ''emit /tmp/fuzz-target.ts'', ''import'',
      ''new Second'', ''run'']
   \<and> heap (snd (handler (example_env missing_module two_classes)
      ''class Second extends SmartContract {}'' (fresh (1 / 2))))
   = [''write /tmp/fuzz-target.ts'', ''emit /tmp/fuzz-target.ts'', ''import'',
      ''new Second'', ''run'']
   \<and> tempFilePath ''contracts/Add.ts'' 1700000000000 = ''/tmp/fuzz-Add-1700000000000.ts''
   \<and> tempFilePath ''examples/Add.ts'' 1700000000000 = ''/tmp/fuzz-Add-1700000000000.ts''"
proof -
  have first: "heap (snd (handler (example_env missing_module two_classes)
      ''class Counter extends SmartContract {}'' (fresh (1 / 2))))
   = [''write /tmp/fuzz-target.ts'', ''emit /tmp/fuzz-target.ts'', ''import'',
      ''new Second'', ''run'']"
    by (simp add: harness_defs example_defs)
  have second: "heap (snd (handler (example_env missing_module two_classes)
      ''class Second extends SmartContract {}'' (fresh (1 / 2))))
   = [''write /tmp/fuzz-target.ts'', ''emit /tmp/fuzz-target.ts'', ''import'',
      ''new Second'', ''run'']"
    by (simp add: harness_defs example_defs)
  have clock: "String_nat 1700000000000 = ''1700000000000''"
    by (simp add: String_nat.simps digit36_def alphabet36_def)
  have contracts: "basename_ext ''contracts/Add.ts'' ''.ts'' = ''Add''"
    by (simp add: basename_ext_def basename_def)
  have examples: "basename_ext ''examples/Add.ts'' ''.ts'' = ''Add''"
    by (simp add: basename_ext_def basename_def)
  have "tempFilePath ''contracts/Add.ts'' 1700000000000 = ''/tmp/fuzz-Add-1700000000000.ts''"
    by (simp add: tempFilePath_def tempFileName_def path_join_def clock contracts)
  moreover
  have "tempFilePath ''examples/Add.ts'' 1700000000000 = ''/tmp/fuzz-Add-1700000000000.ts''"
    by (simp add: tempFilePath_def tempFileName_def path_join_def clock examples)
  ultimately show ?thesis using first second by (intro conjI)
qed

end
